theory Spec2Isabelle
  imports Complex_Main
begin

section \<open>Data model\<close>

text \<open>
  The objective dispatcher (ComputationEngine.ipp) drives an external inference engine
  and shapes numeric result vectors.  The template parameter \<open>RealT\<close> is modelled by the
  mathematical reals: comparisons, subtraction and scaling are the exact ones, so no
  statement below speaks about rounding, infinities or NaN.  A \<open>std::vector<RealT>\<close> is a
  \<open>real list\<close>.
\<close>

text \<open>
  \<open>SStruct\<close> (declared in SStruct.hpp, outside the dispatcher's sources): only what the
  dispatcher asks of it.
  \<open>HasEvidence d\<close> is membership of \<open>d\<close> in the list of data sources carrying evidence.
\<close>

record SStruct =
  GetLength :: nat
  GetMapping :: "int list"
  HasStruct :: bool
  evidence_sources :: "int list"

definition HasEvidence :: "SStruct \<Rightarrow> int \<Rightarrow> bool" where
  "HasEvidence ss d = (d \<in> set (evidence_sources ss))"

record FileDescription =
  sstruct :: SStruct
  input_filename :: string
  weight :: real

text \<open>
  \<open>SharedInfo\<close>: the parameters broadcast to every example of a batch.  The arrays
  \<open>w\<close> and \<open>v\<close> are the fields \<open>shared_w\<close> and \<open>shared_v\<close>.
\<close>

record SharedInfo =
  shared_w :: "real list"
  shared_v :: "real list"
  use_nonsmooth :: bool
  use_loss :: bool
  gamma :: real
  log_base :: real
  id_base :: int
  id_pairing :: int
  areZeros :: int
  evidence_data_scale :: real
  which_data :: int
  hyperparam_data :: real

record NonSharedInfo =
  index :: nat

text \<open>
  Every member function the dispatcher calls on the inference engine, with its arguments.
  The engine is a black box: the model records the calls in order, and a call that returns
  a value gets it from an oracle applied to the whole history of calls, the call itself
  last.  Any deterministic engine is an instance.
\<close>

datatype engine_call =
    LoadSequence SStruct
  | LoadValues "real list"
  | UseConstraints "int list"
  | UseLoss "int list" real
  | UseMapping "int list"
  | UpdateEvidenceStructures
  | ComputeViterbi
  | GetViterbiScore
  | ComputeViterbiFeatureCounts
  | ComputeInside
  | ComputeOutside
  | ComputeLogPartitionCoefficient
  | ComputeFeatureCountExpectations
  | ComputeInsideESS
  | ComputeOutsideESS
  | ComputePosteriorESS
  | ComputeLogPartitionCoefficientESS
  | ComputeFeatureCountExpectationsESS
  | ComputeGammaMLESS "int list" bool bool int
  | ComputeGammaMLEESS "int list" bool bool int
  | ComputeGammaMLESum "int list" bool bool int
  | GetNumExamplesSeq "int list" bool int
  | GetNumExamplesSeqPairing "int list" bool int

record InferenceEngine =
  scalar_reply :: "engine_call list \<Rightarrow> real"
  vector_reply :: "engine_call list \<Rightarrow> real list"

text \<open>
  What the dispatcher reads and never changes: the corpus, the options, the parameter
  manager's tables, and the constants and macros of the build (\<open>NEG_INF\<close>,
  \<open>NONCONVEX_MULTIPLIER\<close>, \<open>STOCHASTIC_GRADIENT\<close>, \<open>HAMMING_LOSS\<close>, \<open>M\<close>, \<open>UNKNOWN\<close>), none of
  them defined in the dispatcher's sources, so all of them parameters here.
  \<open>HAMMING_LOSS = None\<close> is the macro left undefined.  \<open>asserts_enabled\<close> says whether
  \<open>Assert\<close> checks its condition (a build without assertions skips it).
  \<open>logical_index a i j d\<close> stands for
  \<open>parameter_manager.GetLogicalIndex(inference_engine.GetLogScoreEvidence(a,i,j,d))\<close>.
  \<open>lgamma\<close> and \<open>Psi\<close> are the log-gamma and digamma functions of the numeric library.
\<close>

record Environment =
  descriptions :: "FileDescription list"
  engine :: InferenceEngine
  GetNumLogicalParameters :: nat
  logical_index :: "nat \<Rightarrow> int \<Rightarrow> int \<Rightarrow> int \<Rightarrow> nat"
  viterbi_parsing :: bool
  num_data_sources :: nat
  NEG_INF :: real
  NONCONVEX_MULTIPLIER :: real
  STOCHASTIC_GRADIENT :: bool
  HAMMING_LOSS :: "real option"
  asserts_enabled :: bool
  M :: nat
  UNKNOWN :: int
  lgamma :: "real \<Rightarrow> real"
  Psi :: "real \<Rightarrow> real"
  GetBaseName :: "string \<Rightarrow> string"

section \<open>Effects: engine calls, diagnostics, fatal termination\<close>

datatype failure =
    FatalError string
  | AssertionFailed string
  | ProcessExit int

datatype message =
    BadParse string
  | NegativeFunctionValue string real

text \<open>
  The observable state of a run: the calls made on the engine so far, the lines written to
  the error stream, and the parameter files written.
\<close>

record machine =
  calls :: "engine_call list"
  stderr :: "message list"
  written :: "(string \<times> real list) list"

type_synonym 'a run = "machine \<Rightarrow> (failure + 'a) \<times> machine"

definition ret :: "'a \<Rightarrow> 'a run" where
  "ret x = (\<lambda>s. (Inr x, s))"

definition bnd :: "'a run \<Rightarrow> ('a \<Rightarrow> 'b run) \<Rightarrow> 'b run" where
  "bnd m f = (\<lambda>s. case m s of (Inl e, s') \<Rightarrow> (Inl e, s') | (Inr x, s') \<Rightarrow> f x s')"

definition sq :: "unit run \<Rightarrow> 'b run \<Rightarrow> 'b run" where
  "sq m n = bnd m (\<lambda>_. n)"

text \<open>\<open>Error(msg)\<close> prints the message and ends the process; nothing after it runs.\<close>

definition Error :: "string \<Rightarrow> 'a run" where
  "Error msg = (\<lambda>s. (Inl (FatalError msg), s))"

definition Assert :: "Environment \<Rightarrow> bool \<Rightarrow> string \<Rightarrow> unit run" where
  "Assert env test msg =
     (\<lambda>s. if asserts_enabled env \<and> \<not> test then (Inl (AssertionFailed msg), s) else (Inr (), s))"

definition exit :: "int \<Rightarrow> 'a run" where
  "exit code = (\<lambda>s. (Inl (ProcessExit code), s))"

definition cerr :: "message \<Rightarrow> unit run" where
  "cerr m = (\<lambda>s. (Inr (), s\<lparr>stderr := stderr s @ [m]\<rparr>))"

definition WriteToFile :: "string \<Rightarrow> real list \<Rightarrow> unit run" where
  "WriteToFile filename values = (\<lambda>s. (Inr (), s\<lparr>written := written s @ [(filename, values)]\<rparr>))"

definition call :: "engine_call \<Rightarrow> unit run" where
  "call c = (\<lambda>s. (Inr (), s\<lparr>calls := calls s @ [c]\<rparr>))"

definition ask :: "Environment \<Rightarrow> engine_call \<Rightarrow> real run" where
  "ask env c = (\<lambda>s. (Inr (scalar_reply (engine env) (calls s @ [c])), s\<lparr>calls := calls s @ [c]\<rparr>))"

definition ask_vector :: "Environment \<Rightarrow> engine_call \<Rightarrow> real list run" where
  "ask_vector env c = (\<lambda>s. (Inr (vector_reply (engine env) (calls s @ [c])), s\<lparr>calls := calls s @ [c]\<rparr>))"

section \<open>Vector arithmetic of the utilities\<close>

text \<open>
  The overloaded operators on \<open>std::vector\<close>.  The difference of two vectors is taken
  componentwise; the operands have one length wherever the dispatcher subtracts (a shorter
  operand ends the result here).
\<close>

definition vec_scale :: "real list \<Rightarrow> real \<Rightarrow> real list" where
  "vec_scale xs c = map (\<lambda>x. x * c) xs"

definition vec_sub :: "real list \<Rightarrow> real list \<Rightarrow> real list" where
  "vec_sub xs ys = map (\<lambda>(x, y). x - y) (zip xs ys)"

definition vec_div :: "real list \<Rightarrow> real \<Rightarrow> real list" where
  "vec_div xs c = map (\<lambda>x. x / c) xs"

definition DotProduct :: "real list \<Rightarrow> real list \<Rightarrow> real" where
  "DotProduct xs ys = sum_list (map (\<lambda>(x, y). x * y) (zip xs ys))"

definition fill_zero :: "real list \<Rightarrow> real list" where
  "fill_zero xs = replicate (length xs) 0"

text \<open>\<open>result.back() /= c\<close> on a non-empty vector.\<close>

definition back_div :: "real list \<Rightarrow> real \<Rightarrow> real list" where
  "back_div xs c = butlast xs @ [last xs / c]"

text \<open>The first \<open>GetNumLogicalParameters()\<close> entries of the shared weight array.\<close>

definition weights :: "Environment \<Rightarrow> SharedInfo \<Rightarrow> real list" where
  "weights env shared = take (GetNumLogicalParameters env) (shared_w shared)"

text \<open>
  \<open>descriptions[nonshared.index]\<close>.  The index of a work unit lies within the corpus; the
  source does not check it, and a statement below that depends on the position assumes it.
\<close>

definition example :: "Environment \<Rightarrow> NonSharedInfo \<Rightarrow> FileDescription" where
  "example env nonshared = descriptions env ! index nonshared"

section \<open>CheckParsability\<close>

definition CheckParsability :: "Environment \<Rightarrow> NonSharedInfo \<Rightarrow> real list run" where
  "CheckParsability env nonshared =
     sq (call (LoadSequence (sstruct (example env nonshared))))
    (sq (call (LoadValues (replicate (GetNumLogicalParameters env) 0)))
    (sq (call (UseConstraints (GetMapping (sstruct (example env nonshared)))))
    (sq (call UpdateEvidenceStructures)
    (sq (call ComputeViterbi)
    (bnd (ask env GetViterbiScore) (\<lambda>conditional_score.
     ret ((replicate (length (descriptions env)) 0)
            [index nonshared := (if conditional_score < NEG_INF env / 2 then 0 else 1)])))))))"

section \<open>Gamma maximum-likelihood statistics\<close>

text \<open>
  The log-likelihood expression of the Gamma evidence model, written out four times in
  \<open>ComputeGammaMLEFunctionAndGradient\<close> with the same shape:
  \<open>(k-1)*sumlog - sumd/theta - n*k*log(theta) - n*lgamma(k)\<close>.
\<close>

definition gamma_ll :: "Environment \<Rightarrow> real \<Rightarrow> real \<Rightarrow> real \<Rightarrow> real \<Rightarrow> real \<Rightarrow> real" where
  "gamma_ll env k theta sumlog sumd n =
     (k - 1) * sumlog - sumd / theta - n * k * ln theta - n * lgamma env k"

text \<open>The cast \<open>(int)\<close> of a real: truncation towards zero.\<close>

definition int_cast :: "real \<Rightarrow> real" where
  "int_cast x = of_int (if 0 \<le> x then \<lfloor>x\<rfloor> else \<lceil>x\<rceil>)"

text \<open>
  The branch for an example of unknown structure: expected sufficient statistics.
  It yields the rebased sum, the rebased sum of logarithms, the count and the
  log-likelihood.
\<close>

definition gammamle_ess ::
  "Environment \<Rightarrow> int list \<Rightarrow> bool \<Rightarrow> int \<Rightarrow> real \<Rightarrow> real \<Rightarrow> real \<Rightarrow> (real \<times> real \<times> real \<times> real) run" where
  "gammamle_ess env evidence_cpd_id zeros which scale current_k current_theta =
     sq (call ComputeInsideESS)
    (sq (call ComputeOutsideESS)
    (sq (call ComputePosteriorESS)
    (bnd (ask_vector env (ComputeGammaMLEESS evidence_cpd_id (\<not> zeros) (\<not> zeros) which)) (\<lambda>stats.
     bnd (ask env (GetNumExamplesSeq evidence_cpd_id False which)) (\<lambda>num_examples.
     let sssum = stats ! 0; ssq = stats ! 2; sssumlog = stats ! 1 in
     bnd (if \<not> zeros then ret (gamma_ll env current_k current_theta sssumlog sssum num_examples)
          else
            bnd (ask_vector env (ComputeGammaMLEESS evidence_cpd_id True True which)) (\<lambda>stats_nozeros.
            bnd (ask env (GetNumExamplesSeq evidence_cpd_id True which)) (\<lambda>n_nozeros.
            ret (gamma_ll env current_k current_theta (stats_nozeros ! 1) sssum (int_cast n_nozeros)))))
       (\<lambda>ll.
     ret (sssum / scale, sssumlog - ssq * ln scale, num_examples, ll)))))))"

text \<open>The branch for an example of known structure.\<close>

definition gammamle_ss ::
  "Environment \<Rightarrow> int list \<Rightarrow> bool \<Rightarrow> int \<Rightarrow> real \<Rightarrow> real \<Rightarrow> real \<Rightarrow> (real \<times> real \<times> real \<times> real) run" where
  "gammamle_ss env evidence_cpd_id zeros which scale current_k current_theta =
     bnd (ask_vector env (ComputeGammaMLESS evidence_cpd_id (\<not> zeros) (\<not> zeros) which)) (\<lambda>stats.
     bnd (ask env (GetNumExamplesSeqPairing evidence_cpd_id False which)) (\<lambda>num_examples.
     let sssum = stats ! 0; sssumlog = stats ! 1 in
     bnd (if \<not> zeros then ret (gamma_ll env current_k current_theta sssumlog sssum num_examples)
          else
            bnd (ask_vector env (ComputeGammaMLESS evidence_cpd_id True True which)) (\<lambda>stats_nozeros.
            bnd (ask env (GetNumExamplesSeqPairing evidence_cpd_id True which)) (\<lambda>n_nozeros.
            ret (gamma_ll env current_k current_theta (stats_nozeros ! 1) sssum (int_cast n_nozeros)))))
       (\<lambda>ll.
     ret (sssum / scale, sssumlog - num_examples * ln scale, num_examples, ll))))"

definition ComputeGammaMLEFunctionAndGradient ::
  "Environment \<Rightarrow> SharedInfo \<Rightarrow> NonSharedInfo \<Rightarrow> bool \<Rightarrow> real list run" where
  "ComputeGammaMLEFunctionAndGradient env shared nonshared need_gradient =
     (let ss = sstruct (example env nonshared);
          which = which_data shared
      in
      if \<not> HasEvidence ss which then
        ret ((if need_gradient then [0, 0, 0] else []) @ [0])
      else
        sq (call (LoadSequence ss))
       (sq (call (UseConstraints (GetMapping ss)))
       (sq (call (LoadValues (vec_scale (weights env shared) (log_base shared))))
       (sq (case HAMMING_LOSS env of
              Some h \<Rightarrow> Error ''HAMMING_LOSS not implemented within EM training''
            | None \<Rightarrow> ret ())
       (sq (call UpdateEvidenceStructures)
       (let j = id_base shared;
            k = id_pairing shared;
            zeros = (areZeros shared \<noteq> 0);
            scale = evidence_data_scale shared;
            evidence_cpd_id = [j, k, if zeros then 1 else 0];
            current_k = exp (weights env shared ! logical_index env 0 j k which);
            current_theta = exp (weights env shared ! logical_index env 1 j k which)
        in
        bnd (if use_nonsmooth shared then Error ''Viterbi training not supported within EM training''
             else if \<not> HasStruct ss then
               gammamle_ess env evidence_cpd_id zeros which scale current_k current_theta
             else
               gammamle_ss env evidence_cpd_id zeros which scale current_k current_theta)
          (\<lambda>(sssum, sssumlog, num_examples, ll).
        ret (vec_scale ((if need_gradient then [sssum, sssumlog, num_examples] else []) @ [ll])
               (weight (example env nonshared))))))))))"

definition ComputeGammaMLEScalingFactor ::
  "Environment \<Rightarrow> SharedInfo \<Rightarrow> NonSharedInfo \<Rightarrow> real list run" where
  "ComputeGammaMLEScalingFactor env shared nonshared =
     (let ss = sstruct (example env nonshared);
          which = which_data shared
      in
      if \<not> HasEvidence ss which then ret [0, 0]
      else
        sq (call (LoadSequence ss))
       (sq (call (UseConstraints (GetMapping ss)))
       (sq (call (LoadValues (vec_scale (weights env shared) (log_base shared))))
       (sq (call UpdateEvidenceStructures)
       (let evidence_cpd_id = [id_base shared, id_pairing shared] in
        bnd (if \<not> HasStruct ss then
               sq (call ComputeInsideESS)
              (sq (call ComputeOutsideESS)
              (sq (call ComputePosteriorESS)
              (bnd (ask env (ComputeGammaMLESum evidence_cpd_id True True which)) (\<lambda>sssum.
               bnd (ask env (GetNumExamplesSeq evidence_cpd_id False which)) (\<lambda>num_examples.
               ret (sssum, num_examples))))))
             else
               bnd (ask env (ComputeGammaMLESum evidence_cpd_id False False which)) (\<lambda>sssum.
               bnd (ask env (GetNumExamplesSeqPairing evidence_cpd_id False which)) (\<lambda>num_examples.
               ret (sssum, num_examples))))
          (\<lambda>(sssum, num_examples). ret [sssum, num_examples]))))))"

section \<open>Function and gradient\<close>

text \<open>
  One inference pass, as the dispatcher writes it each time: the Viterbi score (non-smooth)
  or the log-partition value (smooth), and the feature counts when the gradient is asked
  for; otherwise the count vector stays what it was.
\<close>

definition inference_pass ::
  "Environment \<Rightarrow> bool \<Rightarrow> bool \<Rightarrow> real list \<Rightarrow> (real \<times> real list) run" where
  "inference_pass env nonsmooth need_gradient counts =
     (if nonsmooth then
        sq (call ComputeViterbi)
       (bnd (ask env GetViterbiScore) (\<lambda>score.
        if need_gradient then
          bnd (ask_vector env ComputeViterbiFeatureCounts) (\<lambda>counts'. ret (score, counts'))
        else ret (score, counts)))
      else
        sq (call ComputeInside)
       (bnd (ask env ComputeLogPartitionCoefficient) (\<lambda>score.
        if need_gradient then
          sq (call ComputeOutside)
         (bnd (ask_vector env ComputeFeatureCountExpectations) (\<lambda>counts'. ret (score, counts')))
        else ret (score, counts))))"

text \<open>
  \<open>ComputeFunctionAndGradient\<close>, first part: load the example and the rescaled weights,
  run the unconditional pass, clamp to the ground truth, run the conditional pass.  It
  yields the unconditional score and counts and the conditional score and counts.
\<close>

definition function_gradient_inference ::
  "Environment \<Rightarrow> SharedInfo \<Rightarrow> NonSharedInfo \<Rightarrow> bool \<Rightarrow> (real \<times> real list \<times> real \<times> real list) run" where
  "function_gradient_inference env shared nonshared need_gradient =
     (let ss = sstruct (example env nonshared) in
      sq (call (LoadSequence ss))
     (sq (call (LoadValues (vec_scale (weights env shared) (log_base shared))))
     (sq (case HAMMING_LOSS env of
            Some h \<Rightarrow> if use_loss shared then call (UseLoss (GetMapping ss) (log_base shared * h)) else ret ()
          | None \<Rightarrow> ret ())
     (bnd (inference_pass env (use_nonsmooth shared) need_gradient []) (\<lambda>(unconditional_score, unconditional_counts).
      sq (call (UseConstraints (GetMapping ss)))
     (bnd (inference_pass env (use_nonsmooth shared) need_gradient []) (\<lambda>(conditional_score, conditional_counts).
      ret (unconditional_score, unconditional_counts, conditional_score, conditional_counts))))))))"

text \<open>
  The subgradient, the assertion and the function value, the same three statements in
  \<open>ComputeFunctionAndGradient\<close> and \<open>ComputeMStepFunctionAndGradient\<close>.
\<close>

definition score_difference ::
  "Environment \<Rightarrow> bool \<Rightarrow> real \<Rightarrow> real list \<Rightarrow> real \<Rightarrow> real list \<Rightarrow> real list run" where
  "score_difference env need_gradient unconditional_score unconditional_counts conditional_score conditional_counts =
     (let result = (if need_gradient then vec_sub unconditional_counts conditional_counts else []) in
      sq (Assert env (conditional_score \<le> unconditional_score)
            ''Conditional score cannot exceed unconditional score.'')
         (ret (result @ [unconditional_score - conditional_score])))"

text \<open>
  The non-convex correction of \<open>ComputeFunctionAndGradient\<close>, compiled in under
  \<open>STOCHASTIC_GRADIENT\<close>.  Both passes assign the unconditional score and counts, as the
  source does.  The flag returned says whether the function returned from inside the block.
\<close>

definition nonconvex_correction ::
  "Environment \<Rightarrow> SharedInfo \<Rightarrow> NonSharedInfo \<Rightarrow> bool \<Rightarrow> real list \<Rightarrow> real \<Rightarrow> real list \<Rightarrow> real list
     \<Rightarrow> (bool \<times> real list) run" where
  "nonconvex_correction env shared nonshared need_gradient unconditional_counts conditional_score conditional_counts result =
     (let ss = sstruct (example env nonshared) in
      if NONCONVEX_MULTIPLIER env \<noteq> 0 \<and> STOCHASTIC_GRADIENT env then
        sq (if use_loss shared then call (UseLoss (GetMapping ss) 0) else ret ())
       (sq (call (UseMapping (replicate (GetLength ss + 1) (UNKNOWN env))))
       (bnd (inference_pass env (use_nonsmooth shared) need_gradient unconditional_counts) (\<lambda>(score1, counts1).
        sq (call (UseMapping (GetMapping ss)))
       (bnd (inference_pass env (use_nonsmooth shared) need_gradient counts1) (\<lambda>(score2, counts2).
        let result2 = (if need_gradient then vec_sub counts2 conditional_counts else []) in
        sq (Assert env (conditional_score \<le> score2)
              ''Conditional score cannot exceed unconditional score.'')
           (if conditional_score < NEG_INF env / 2 then
              sq (cerr (BadParse (input_filename (example env nonshared))))
                 (ret (True, fill_zero result))
            else
              ret (False, vec_sub result
                            (vec_scale (result2 @ [score2 - conditional_score]) (NONCONVEX_MULTIPLIER env)))))))))
      else ret (False, result))"

text \<open>
  "Avoid precision problems", then weight and rescale: the closing statements of
  \<open>ComputeFunctionAndGradient\<close> and \<open>ComputeMStepFunctionAndGradient\<close>.
\<close>

definition precision_check ::
  "Environment \<Rightarrow> SharedInfo \<Rightarrow> NonSharedInfo \<Rightarrow> real list \<Rightarrow> real list run" where
  "precision_check env shared nonshared result =
     (if last result < 0 then
        if last result < - (1 / 1000000) then
          sq (cerr (NegativeFunctionValue (input_filename (example env nonshared)) (last result)))
         (sq (WriteToFile (''neg_params.'' @ GetBaseName env (input_filename (example env nonshared)))
                (weights env shared))
             (exit 0))
        else ret (fill_zero result)
      else
        ret (back_div (vec_scale result (weight (example env nonshared))) (log_base shared)))"

definition ComputeFunctionAndGradient ::
  "Environment \<Rightarrow> SharedInfo \<Rightarrow> NonSharedInfo \<Rightarrow> bool \<Rightarrow> real list run" where
  "ComputeFunctionAndGradient env shared nonshared need_gradient =
     bnd (function_gradient_inference env shared nonshared need_gradient)
       (\<lambda>(unconditional_score, unconditional_counts, conditional_score, conditional_counts).
     bnd (score_difference env need_gradient unconditional_score unconditional_counts
            conditional_score conditional_counts) (\<lambda>result.
     if conditional_score < NEG_INF env / 2 then
       sq (cerr (BadParse (input_filename (example env nonshared))))
          (ret (fill_zero result))
     else
       bnd (nonconvex_correction env shared nonshared need_gradient unconditional_counts
              conditional_score conditional_counts result) (\<lambda>(returned, result').
       if returned then ret result' else precision_check env shared nonshared result')))"

section \<open>The M-step of EM training\<close>

text \<open>
  \<open>ComputeMStepFunctionAndGradient\<close>, first part.  With no known structure the conditional
  pass installs no constraints: it computes the expected feature counts and scores them by
  the dot product with the (unscaled) weights.
\<close>

definition mstep_inference ::
  "Environment \<Rightarrow> SharedInfo \<Rightarrow> NonSharedInfo \<Rightarrow> bool \<Rightarrow> (real \<times> real list \<times> real \<times> real list) run" where
  "mstep_inference env shared nonshared need_gradient =
     (let ss = sstruct (example env nonshared) in
      sq (call (LoadSequence ss))
     (sq (call (LoadValues (vec_scale (weights env shared) (log_base shared))))
     (sq (call UpdateEvidenceStructures)
     (sq (case HAMMING_LOSS env of
            Some h \<Rightarrow> Error ''HAMMING_LOSS not implemented within EM training''
          | None \<Rightarrow> ret ())
     (bnd (sq (if use_nonsmooth shared then Error ''Viterbi training not supported within EM training''
               else ret ())
              (inference_pass env (use_nonsmooth shared) need_gradient []))
        (\<lambda>(unconditional_score, unconditional_counts).
      bnd (if use_nonsmooth shared then
             sq (Error ''Viterbi training not supported within EM training'')
                (inference_pass env True need_gradient [])
           else if \<not> HasStruct ss then
             sq (call ComputeInsideESS)
            (sq (call ComputeOutsideESS)
            (bnd (ask_vector env ComputeFeatureCountExpectationsESS) (\<lambda>conditional_counts.
             ret (DotProduct (weights env shared) conditional_counts, conditional_counts))))
           else
             sq (call (UseConstraints (GetMapping ss)))
            (sq (call UpdateEvidenceStructures)
                (inference_pass env False need_gradient [])))
        (\<lambda>(conditional_score, conditional_counts).
      ret (unconditional_score, unconditional_counts, conditional_score, conditional_counts))))))))"

definition ComputeMStepFunctionAndGradient ::
  "Environment \<Rightarrow> SharedInfo \<Rightarrow> NonSharedInfo \<Rightarrow> bool \<Rightarrow> real list run" where
  "ComputeMStepFunctionAndGradient env shared nonshared need_gradient =
     bnd (mstep_inference env shared nonshared need_gradient)
       (\<lambda>(unconditional_score, unconditional_counts, conditional_score, conditional_counts).
     bnd (score_difference env need_gradient unconditional_score unconditional_counts
            conditional_score conditional_counts) (\<lambda>result.
     if conditional_score < NEG_INF env / 2 then
       sq (cerr (BadParse (input_filename (example env nonshared))))
          (ret (fill_zero result))
     else
       sq (if NONCONVEX_MULTIPLIER env \<noteq> 0 then
             Error ''Nonconvex training not supported within EM training''
           else ret ())
          (precision_check env shared nonshared result)))"

section \<open>Function and gradient with structured evidence\<close>

text \<open>
  \<open>ComputeFunctionAndGradientSE\<close>, first part.  With no known structure the conditional
  score is the log-partition value of the evidence-augmented pass.
\<close>

definition se_inference ::
  "Environment \<Rightarrow> SharedInfo \<Rightarrow> NonSharedInfo \<Rightarrow> bool \<Rightarrow> (real \<times> real list \<times> real \<times> real list) run" where
  "se_inference env shared nonshared need_gradient =
     (let ss = sstruct (example env nonshared) in
      sq (call (LoadSequence ss))
     (sq (call (LoadValues (vec_scale (weights env shared) (log_base shared))))
     (sq (call UpdateEvidenceStructures)
     (sq (case HAMMING_LOSS env of
            Some h \<Rightarrow> Error ''HAMMING_LOSS not implemented within EM training''
          | None \<Rightarrow> ret ())
     (bnd (sq (if use_nonsmooth shared then Error ''Viterbi training not supported within EM training''
               else ret ())
              (inference_pass env (use_nonsmooth shared) need_gradient []))
        (\<lambda>(unconditional_score, unconditional_counts).
      bnd (if use_nonsmooth shared then
             sq (Error ''Viterbi training not supported within EM training'')
                (inference_pass env True need_gradient [])
           else if \<not> HasStruct ss then
             sq (call ComputeInsideESS)
            (bnd (ask env ComputeLogPartitionCoefficientESS) (\<lambda>conditional_score.
             if need_gradient then
               sq (call ComputeOutsideESS)
              (sq (call ComputePosteriorESS)
              (bnd (ask_vector env ComputeFeatureCountExpectationsESS) (\<lambda>conditional_counts.
               ret (conditional_score, conditional_counts))))
             else ret (conditional_score, [])))
           else
             sq (call (UseConstraints (GetMapping ss)))
            (sq (call UpdateEvidenceStructures)
                (inference_pass env False need_gradient [])))
        (\<lambda>(conditional_score, conditional_counts).
      ret (unconditional_score, unconditional_counts, conditional_score, conditional_counts))))))))"

text \<open>
  The body of the three nested loops over data source, nucleotide and pairing state: it
  reads the Gamma statistics of the cell, subtracts the cell's log-likelihood from the
  function value (known structure only) and writes the two evidence gradients in place.
\<close>

definition se_cell ::
  "Environment \<Rightarrow> SStruct \<Rightarrow> real list \<Rightarrow> bool \<Rightarrow> nat \<times> nat \<times> nat \<Rightarrow> real \<times> real list
     \<Rightarrow> (real \<times> real list) run" where
  "se_cell env ss ws need_gradient cell acc =
     (let dataset_id = int (fst cell);
          i = int (fst (snd cell));
          j = int (snd (snd cell));
          function_value = fst acc;
          result = snd acc;
          evidence_cpd_id = [i, j]
      in
      bnd (if HasEvidence ss dataset_id then
             bnd (if HasStruct ss then
                    ask_vector env (ComputeGammaMLESS evidence_cpd_id True True dataset_id)
                  else if need_gradient then
                    ask_vector env (ComputeGammaMLEESS evidence_cpd_id True True dataset_id)
                  else ret [0, 0, 0])
               (\<lambda>stats. ret (stats ! 0, stats ! 1, stats ! 2))
           else ret (0, 0, 0))
        (\<lambda>(sum_d, sum_log_d, N).
      let index_k = logical_index env 0 i j dataset_id;
          index_theta = logical_index env 1 i j dataset_id;
          k = exp (ws ! index_k);
          log_theta = ws ! index_theta;
          theta_inv = exp (- log_theta);
          function_value' =
            (if HasStruct ss then
               function_value
                 - ((k - 1) * sum_log_d - sum_d * theta_inv - N * k * log_theta - N * lgamma env k)
             else function_value);
          result' =
            (if need_gradient then
               (result[index_k := - (sum_log_d - N * log_theta - N * Psi env k) * k])
                 [index_theta := - (sum_d * theta_inv - N * k)]
             else result)
      in ret (function_value', result')))"

primrec se_cells ::
  "Environment \<Rightarrow> SStruct \<Rightarrow> real list \<Rightarrow> bool \<Rightarrow> (nat \<times> nat \<times> nat) list \<Rightarrow> real \<times> real list
     \<Rightarrow> (real \<times> real list) run" where
  "se_cells env ss ws need_gradient [] acc = ret acc"
| "se_cells env ss ws need_gradient (cell # cells) acc =
     bnd (se_cell env ss ws need_gradient cell acc) (se_cells env ss ws need_gradient cells)"

text \<open>The cells in the order the loops visit them.\<close>

definition evidence_cells :: "Environment \<Rightarrow> (nat \<times> nat \<times> nat) list" where
  "evidence_cells env =
     concat (map (\<lambda>dataset_id. concat (map (\<lambda>i. map (\<lambda>j. (dataset_id, i, j)) [0..<2]) [0..<M env]))
               [0..<num_data_sources env])"

definition ComputeFunctionAndGradientSE ::
  "Environment \<Rightarrow> SharedInfo \<Rightarrow> NonSharedInfo \<Rightarrow> bool \<Rightarrow> real list run" where
  "ComputeFunctionAndGradientSE env shared nonshared need_gradient =
     (let ss = sstruct (example env nonshared) in
      bnd (se_inference env shared nonshared need_gradient)
        (\<lambda>(unconditional_score, unconditional_counts, conditional_score, conditional_counts).
      bnd (se_cells env ss (weights env shared) need_gradient (evidence_cells env)
             (0, if need_gradient then vec_sub unconditional_counts conditional_counts else []))
        (\<lambda>(evidence_value, gradient).
      let function_value_nonevidence = unconditional_score - conditional_score;
          function_value = evidence_value + function_value_nonevidence;
          result = gradient @ [function_value]
      in
      sq (if HasStruct ss then
            Assert env (conditional_score \<le> unconditional_score)
              ''Conditional score cannot exceed unconditional score.''
          else ret ())
     (if conditional_score < NEG_INF env / 2 then
        sq (cerr (BadParse (input_filename (example env nonshared))))
           (ret (fill_zero result))
      else
        sq (if NONCONVEX_MULTIPLIER env \<noteq> 0 then
              Error ''Nonconvex training not supported within EM training''
            else ret ())
       (if function_value_nonevidence < 0 then
          if function_value_nonevidence < - (1 / 1000000) \<and> HasStruct ss then
            sq (cerr (NegativeFunctionValue (input_filename (example env nonshared)) (last result)))
           (sq (WriteToFile (''neg_params.'' @ GetBaseName env (input_filename (example env nonshared)))
                  (weights env shared))
               (exit 0))
          else ret (fill_zero result)
        else
          (let scaled = back_div (vec_scale result (weight (example env nonshared))) (log_base shared) in
           ret (if \<not> HasStruct ss then vec_scale scaled (hyperparam_data shared) else scaled)))))))"

section \<open>Hessian-vector product\<close>

text \<open>
  The loop \<open>shared_temp.w[i] = shared.w[i] + e * v[i]\<close> over the logical parameters; the
  rest of the copied weight array is left as it is.
\<close>

definition perturbed :: "nat \<Rightarrow> real list \<Rightarrow> real list \<Rightarrow> real \<Rightarrow> real list" where
  "perturbed n ws vs e = map (\<lambda>i. if i < n then ws ! i + e * vs ! i else ws ! i) [0..<length ws]"

definition EPSILON :: real where
  "EPSILON = 1 / 100000000"

definition ComputeHessianVectorProduct ::
  "Environment \<Rightarrow> SharedInfo \<Rightarrow> NonSharedInfo \<Rightarrow> real list run" where
  "ComputeHessianVectorProduct env shared nonshared =
     (let v = take (GetNumLogicalParameters env) (shared_v shared) in
      sq (if viterbi_parsing env then
            Error ''Should not use Hessian-vector products with Viterbi parsing.''
          else ret ())
     (bnd (ComputeFunctionAndGradient env
             (shared\<lparr>shared_w := perturbed (GetNumLogicalParameters env) (shared_w shared) v EPSILON\<rparr>)
             nonshared True) (\<lambda>result.
      bnd (ComputeFunctionAndGradient env
             (shared\<lparr>shared_w := perturbed (GetNumLogicalParameters env) (shared_w shared) v (- EPSILON)\<rparr>)
             nonshared True) (\<lambda>result2.
      ret (vec_div (vec_sub result result2) (2 * EPSILON))))))"

section \<open>The EM inner optimizer\<close>

text \<open>
  \<open>InnerOptimizationWrapperEM::Minimize\<close>, defined in the class body:
  \<open>{ Error("Not implemented"); return RealT(0); }\<close>.
\<close>

definition Minimize :: "real list \<Rightarrow> real run" where
  "Minimize x0 = sq (Error ''Not implemented'') (ret 0)"

section \<open>The caching oracle\<close>









section \<open>A sample corpus and engine\<close>

text \<open>
  A small deterministic engine for running the dispatcher on concrete inputs.
  It answers a score query by \<open>c\<close> when constraints were installed since the last sequence
  was loaded, and otherwise by \<open>u\<close> plus the first of the weights loaded last; the
  evidence-augmented log-partition value is \<open>q\<close>.
\<close>

fun pinned :: "engine_call list \<Rightarrow> bool" where
  "pinned [] = False"
| "pinned (UseConstraints m # t) = True"
| "pinned (LoadSequence ss # t) = False"
| "pinned (other # t) = pinned t"

fun loaded :: "engine_call list \<Rightarrow> real" where
  "loaded [] = 0"
| "loaded (LoadValues [] # t) = 0"
| "loaded (LoadValues (x # xs) # t) = x"
| "loaded (other # t) = loaded t"

definition sample_scalar :: "real \<Rightarrow> real \<Rightarrow> real \<Rightarrow> engine_call list \<Rightarrow> real" where
  "sample_scalar u c q t =
     (case last t of
        GetViterbiScore \<Rightarrow> if pinned (rev t) then c else u + loaded (rev t)
      | ComputeLogPartitionCoefficient \<Rightarrow> if pinned (rev t) then c else u + loaded (rev t)
      | ComputeLogPartitionCoefficientESS \<Rightarrow> q
      | ComputeGammaMLESum cpd a b d \<Rightarrow> 6
      | GetNumExamplesSeq cpd z d \<Rightarrow> 3
      | GetNumExamplesSeqPairing cpd z d \<Rightarrow> 3
      | _ \<Rightarrow> 0)"

definition sample_vector :: "engine_call list \<Rightarrow> real list" where
  "sample_vector t =
     (case last t of
        ComputeViterbiFeatureCounts \<Rightarrow> if pinned (rev t) then [1, 0] else [0, 1]
      | ComputeFeatureCountExpectations \<Rightarrow> if pinned (rev t) then [1, 0] else [1 / 2, 1 / 2]
      | ComputeFeatureCountExpectationsESS \<Rightarrow> [3, 1]
      | ComputeGammaMLESS cpd a b d \<Rightarrow> [6, 4, 3]
      | ComputeGammaMLEESS cpd a b d \<Rightarrow> [6, 4, 2]
      | _ \<Rightarrow> [])"

definition known_example :: FileDescription where
  "known_example =
     \<lparr>sstruct = \<lparr>GetLength = 2, GetMapping = [0, 2, 1], HasStruct = True, evidence_sources = [0]\<rparr>,
      input_filename = ''known.bpseq'', weight = 1\<rparr>"

definition unknown_example :: FileDescription where
  "unknown_example =
     \<lparr>sstruct = \<lparr>GetLength = 2, GetMapping = [0, - 1, - 1], HasStruct = False, evidence_sources = [0]\<rparr>,
      input_filename = ''unknown.bpseq'', weight = 1\<rparr>"

definition bare_example :: FileDescription where
  "bare_example =
     \<lparr>sstruct = \<lparr>GetLength = 2, GetMapping = [0, 2, 1], HasStruct = True, evidence_sources = []\<rparr>,
      input_filename = ''bare.bpseq'', weight = 1\<rparr>"

definition sample_env :: "real \<Rightarrow> real \<Rightarrow> real \<Rightarrow> Environment" where
  "sample_env u c q =
     \<lparr>descriptions = [known_example, unknown_example, bare_example],
      engine = \<lparr>scalar_reply = sample_scalar u c q, vector_reply = sample_vector\<rparr>,
      GetNumLogicalParameters = 2,
      logical_index = (\<lambda>a i j d. a),
      viterbi_parsing = False,
      num_data_sources = 1,
      NEG_INF = - 200000000000000000000,
      NONCONVEX_MULTIPLIER = 0,
      STOCHASTIC_GRADIENT = False,
      HAMMING_LOSS = None,
      asserts_enabled = True,
      M = 1,
      UNKNOWN = - 1,
      lgamma = (\<lambda>x. 0),
      Psi = (\<lambda>x. 0),
      GetBaseName = (\<lambda>f. f)\<rparr>"

definition sample_shared :: SharedInfo where
  "sample_shared =
     \<lparr>shared_w = [0, 0, 0], shared_v = [1, 0, 0], use_nonsmooth = False, use_loss = False,
      gamma = 6, log_base = 1, id_base = 0, id_pairing = 0, areZeros = 0,
      evidence_data_scale = 2, which_data = 0, hyperparam_data = 1\<rparr>"

definition start :: machine where
  "start = \<lparr>calls = [], stderr = [], written = []\<rparr>"





section \<open>Basic facts\<close>

lemmas run_defs = ret_def bnd_def sq_def Error_def Assert_def exit_def cerr_def WriteToFile_def
  call_def ask_def ask_vector_def

lemmas sample_defs = sample_env_def sample_scalar_def sample_vector_def sample_shared_def
  known_example_def unknown_example_def bare_example_def start_def example_def weights_def
  HasEvidence_def

lemmas stage_defs = function_gradient_inference_def mstep_inference_def inference_pass_def
  score_difference_def nonconvex_correction_def precision_check_def
  vec_scale_def vec_sub_def vec_div_def DotProduct_def fill_zero_def back_div_def

lemma inference_pass_smooth:
  "inference_pass env False need_gradient counts s =
     (Inr (scalar_reply (engine env) (calls s @ [ComputeInside, ComputeLogPartitionCoefficient]),
           if need_gradient
           then vector_reply (engine env)
                  (calls s @ [ComputeInside, ComputeLogPartitionCoefficient, ComputeOutside,
                              ComputeFeatureCountExpectations])
           else counts),
      s\<lparr>calls := calls s @ [ComputeInside, ComputeLogPartitionCoefficient]
                    @ (if need_gradient then [ComputeOutside, ComputeFeatureCountExpectations] else [])\<rparr>)"
  by (simp add: inference_pass_def run_defs)

lemma score_difference_result:
  "score_difference env need_gradient u uc c cc s =
     (if asserts_enabled env \<and> u < c
      then (Inl (AssertionFailed ''Conditional score cannot exceed unconditional score.''), s)
      else (Inr ((if need_gradient then vec_sub uc cc else []) @ [u - c]), s))"
  by (simp add: score_difference_def run_defs not_le)

lemma precision_check_negative:
  assumes "last result < 0"
  shows "precision_check env shared nonshared result s =
           (if last result < - (1 / 1000000)
            then (Inl (ProcessExit 0),
                  s\<lparr>stderr := stderr s @ [NegativeFunctionValue (input_filename (example env nonshared)) (last result)],
                    written := written s @ [(''neg_params.'' @ GetBaseName env (input_filename (example env nonshared)),
                                             weights env shared)]\<rparr>)
            else (Inr (replicate (length result) 0), s))"
  using assms by (simp add: precision_check_def fill_zero_def run_defs)

lemma back_div_scaled:
  "back_div (vec_scale (g @ [x]) k) b = vec_scale g k @ [x * k / b]"
  by (simp add: back_div_def vec_scale_def)

section \<open>Parsability\<close>

text \<open>
  Claim C7.  For a corpus of any size and an example in it, \<open>CheckParsability\<close> loads the
  example, the all-zero weight vector and the example's constraints, runs Viterbi, and
  returns a vector as long as the corpus that holds 0 at the example's position when the
  Viterbi score is below \<open>NEG_INF/2\<close> and 1 otherwise, and 0 at every other position.
\<close>

theorem CheckParsability_result:
  assumes "index nonshared < length (descriptions env)"
  shows "\<exists>r. CheckParsability env nonshared s =
           (Inr r, s\<lparr>calls := calls s @
              [LoadSequence (sstruct (example env nonshared)),
               LoadValues (replicate (GetNumLogicalParameters env) 0),
               UseConstraints (GetMapping (sstruct (example env nonshared))),
               UpdateEvidenceStructures, ComputeViterbi, GetViterbiScore]\<rparr>)
         \<and> length r = length (descriptions env)
         \<and> r ! index nonshared =
             (if scalar_reply (engine env) (calls s @
                  [LoadSequence (sstruct (example env nonshared)),
                   LoadValues (replicate (GetNumLogicalParameters env) 0),
                   UseConstraints (GetMapping (sstruct (example env nonshared))),
                   UpdateEvidenceStructures, ComputeViterbi, GetViterbiScore]) < NEG_INF env / 2
              then 0 else 1)
         \<and> (\<forall>j. j < length (descriptions env) \<and> j \<noteq> index nonshared \<longrightarrow> r ! j = 0)"
  using assms by (simp add: CheckParsability_def run_defs)

theorem CheckParsability_result_witness:
  "index \<lparr>index = 1\<rparr> < length (descriptions (sample_env 0 (- 300000000000000000000) 0))
   \<and> fst (CheckParsability (sample_env 0 (- 300000000000000000000) 0) \<lparr>index = 1\<rparr> start) = Inr [0, 0, 0]
   \<and> fst (CheckParsability (sample_env 0 (- 7) 0) \<lparr>index = 1\<rparr> start) = Inr [0, 1, 0]"
  using CheckParsability_result [of "\<lparr>index = 1\<rparr>" "sample_env 0 (- 300000000000000000000) 0" start]
    CheckParsability_result [of "\<lparr>index = 1\<rparr>" "sample_env 0 (- 7) 0" start]
  by (simp add: CheckParsability_def run_defs sample_defs)

section \<open>Minimize of the EM inner optimizer\<close>

text \<open>
  Claim C9.  \<open>Minimize\<close> of the EM inner optimizer fails fatally ("Not implemented") on
  every starting point and in every state, and changes nothing before it does.
\<close>

theorem Minimize_not_implemented:
  "Minimize x0 s = (Inl (FatalError ''Not implemented''), s)"
  by (simp add: Minimize_def run_defs)

section \<open>Examples without evidence\<close>

text \<open>
  Claim C10.  For an example that carries no evidence for the requested data source, the
  Gamma-MLE function/gradient command returns four zeros when the gradient is requested and
  one zero otherwise, and the scaling-factor command returns two zeros; in each case the
  state is the one the command started in, so no call reached the inference engine.
\<close>

theorem no_evidence_zero_statistics:
  assumes "\<not> HasEvidence (sstruct (example env nonshared)) (which_data shared)"
  shows "ComputeGammaMLEFunctionAndGradient env shared nonshared True s = (Inr [0, 0, 0, 0], s)
       \<and> ComputeGammaMLEFunctionAndGradient env shared nonshared False s = (Inr [0], s)
       \<and> ComputeGammaMLEScalingFactor env shared nonshared s = (Inr [0, 0], s)"
  using assms
  by (simp add: ComputeGammaMLEFunctionAndGradient_def ComputeGammaMLEScalingFactor_def ret_def)

theorem no_evidence_zero_statistics_witness:
  "\<not> HasEvidence (sstruct (example (sample_env 5 3 0) \<lparr>index = 2\<rparr>)) (which_data sample_shared)
   \<and> ComputeGammaMLEFunctionAndGradient (sample_env 5 3 0) sample_shared \<lparr>index = 2\<rparr> True start
       = (Inr [0, 0, 0, 0], start)
   \<and> ComputeGammaMLEFunctionAndGradient (sample_env 5 3 0) sample_shared \<lparr>index = 2\<rparr> False start
       = (Inr [0], start)
   \<and> ComputeGammaMLEScalingFactor (sample_env 5 3 0) sample_shared \<lparr>index = 2\<rparr> start
       = (Inr [0, 0], start)"
proof -
  have h: "\<not> HasEvidence (sstruct (example (sample_env 5 3 0) \<lparr>index = 2\<rparr>)) (which_data sample_shared)"
    by (simp add: sample_defs)
  show ?thesis
    using h no_evidence_zero_statistics [OF h, of start] by simp
qed

section \<open>The conditional pass of the M-step\<close>

text \<open>
  Claim C5.  The M-step command with the smooth objective (and no Hamming loss compiled in),
  run from any state.  For an example with known structure, the command's calls on the
  engine after the unconditional pass are: install the ground-truth mapping as constraints,
  refresh the evidence structures, run the inside pass and read the log-partition value;
  that value is the conditional score \<open>c\<close> the command uses.  For an example without known
  structure the command installs no constraints at all; it computes the expected feature
  counts, and its conditional score \<open>c\<close> is their dot product with the weight vector.
  In both cases the command fails the assertion when \<open>c\<close> exceeds the unconditional score
  \<open>u\<close> (in a build that checks assertions), and with the scores in order, no bad parse
  and no non-convex multiplier it returns the weighted count difference followed by
  \<open>(u - c)\<close> times the weight over \<open>log_base\<close>.
\<close>

theorem mstep_conditional_pass:
  fixes env shared nonshared need_gradient s
  defines "ss \<equiv> sstruct (example env nonshared)"
  defines "wt \<equiv> weight (example env nonshared)"
  defines "pre \<equiv>
     calls s @ [LoadSequence ss,
                LoadValues (vec_scale (weights env shared) (log_base shared)),
                UpdateEvidenceStructures, ComputeInside, ComputeLogPartitionCoefficient]"
  defines "unconditional \<equiv>
     pre @ (if need_gradient then [ComputeOutside, ComputeFeatureCountExpectations] else [])"
  defines "clamped \<equiv>
     unconditional @ [UseConstraints (GetMapping ss), UpdateEvidenceStructures,
                      ComputeInside, ComputeLogPartitionCoefficient]"
  defines "expected \<equiv>
     unconditional @ [ComputeInsideESS, ComputeOutsideESS, ComputeFeatureCountExpectationsESS]"
  defines "final \<equiv>
     (if HasStruct ss
      then clamped @ (if need_gradient then [ComputeOutside, ComputeFeatureCountExpectations] else [])
      else expected)"
  defines "u \<equiv> scalar_reply (engine env) pre"
  defines "uc \<equiv> (if need_gradient then vector_reply (engine env) unconditional else [])"
  defines "c \<equiv>
     (if HasStruct ss then scalar_reply (engine env) clamped
      else DotProduct (weights env shared) (vector_reply (engine env) expected))"
  defines "cc \<equiv>
     (if HasStruct ss
      then (if need_gradient
            then vector_reply (engine env) (clamped @ [ComputeOutside, ComputeFeatureCountExpectations])
            else [])
      else vector_reply (engine env) expected)"
  assumes "HAMMING_LOSS env = None" and "\<not> use_nonsmooth shared"
  shows "calls (snd (ComputeMStepFunctionAndGradient env shared nonshared need_gradient s)) = final
       \<and> (\<not> HasStruct ss \<longrightarrow>
            (\<forall>m. UseConstraints m \<notin>
                   set (drop (length (calls s))
                          (calls (snd (ComputeMStepFunctionAndGradient env shared nonshared need_gradient s))))))
       \<and> (asserts_enabled env \<and> u < c \<longrightarrow>
            ComputeMStepFunctionAndGradient env shared nonshared need_gradient s =
              (Inl (AssertionFailed ''Conditional score cannot exceed unconditional score.''),
               s\<lparr>calls := final\<rparr>))
       \<and> (c \<le> u \<and> \<not> c < NEG_INF env / 2 \<and> NONCONVEX_MULTIPLIER env = 0 \<longrightarrow>
            ComputeMStepFunctionAndGradient env shared nonshared need_gradient s =
              (Inr (vec_scale (if need_gradient then vec_sub uc cc else []) wt
                    @ [(u - c) * wt / log_base shared]),
               s\<lparr>calls := final\<rparr>))"
proof -
  have inf: "mstep_inference env shared nonshared need_gradient s = (Inr (u, uc, c, cc), s\<lparr>calls := final\<rparr>)"
    using assms(12,13)
    unfolding ss_def wt_def pre_def unconditional_def clamped_def expected_def final_def u_def uc_def
      c_def cc_def
    by (simp add: mstep_inference_def inference_pass_smooth Let_def run_defs)
  have fin: "calls (snd (ComputeMStepFunctionAndGradient env shared nonshared need_gradient s)) = final"
    by (simp add: ComputeMStepFunctionAndGradient_def inf score_difference_result precision_check_def
        run_defs)
  have nouse: "\<not> HasStruct ss \<Longrightarrow> \<forall>m. UseConstraints m \<notin> set (drop (length (calls s)) final)"
    unfolding final_def expected_def unconditional_def pre_def by simp
  have bad: "asserts_enabled env \<and> u < c \<longrightarrow>
            ComputeMStepFunctionAndGradient env shared nonshared need_gradient s =
              (Inl (AssertionFailed ''Conditional score cannot exceed unconditional score.''),
               s\<lparr>calls := final\<rparr>)"
    by (simp add: ComputeMStepFunctionAndGradient_def inf score_difference_result bnd_def)
  have good: "c \<le> u \<and> \<not> c < NEG_INF env / 2 \<and> NONCONVEX_MULTIPLIER env = 0 \<longrightarrow>
            ComputeMStepFunctionAndGradient env shared nonshared need_gradient s =
              (Inr (vec_scale (if need_gradient then vec_sub uc cc else []) wt
                    @ [(u - c) * wt / log_base shared]),
               s\<lparr>calls := final\<rparr>)"
    unfolding wt_def
    by (auto simp add: ComputeMStepFunctionAndGradient_def inf score_difference_result
        precision_check_def back_div_scaled bnd_def sq_def ret_def)
  from fin nouse bad good show ?thesis by simp
qed

theorem mstep_conditional_pass_witness:
  "HAMMING_LOSS (sample_env 9 3 0) = None
   \<and> \<not> use_nonsmooth (sample_shared\<lparr>shared_w := [2, 1, 0]\<rparr>)
   \<and> fst (ComputeMStepFunctionAndGradient (sample_env 9 3 0) (sample_shared\<lparr>shared_w := [2, 1, 0]\<rparr>)
            \<lparr>index = 1\<rparr> True start) = Inr [- (5 / 2), - (1 / 2), 4]
   \<and> calls (snd (ComputeMStepFunctionAndGradient (sample_env 9 3 0) (sample_shared\<lparr>shared_w := [2, 1, 0]\<rparr>)
            \<lparr>index = 1\<rparr> True start))
       = [LoadSequence (sstruct unknown_example), LoadValues [2, 1], UpdateEvidenceStructures,
          ComputeInside, ComputeLogPartitionCoefficient, ComputeOutside, ComputeFeatureCountExpectations,
          ComputeInsideESS, ComputeOutsideESS, ComputeFeatureCountExpectationsESS]
   \<and> fst (ComputeMStepFunctionAndGradient (sample_env 9 3 0) (sample_shared\<lparr>shared_w := [2, 1, 0]\<rparr>)
            \<lparr>index = 0\<rparr> False start) = Inr [8]
   \<and> calls (snd (ComputeMStepFunctionAndGradient (sample_env 9 3 0) (sample_shared\<lparr>shared_w := [2, 1, 0]\<rparr>)
            \<lparr>index = 0\<rparr> False start))
       = [LoadSequence (sstruct known_example), LoadValues [2, 1], UpdateEvidenceStructures,
          ComputeInside, ComputeLogPartitionCoefficient,
          UseConstraints [0, 2, 1], UpdateEvidenceStructures, ComputeInside, ComputeLogPartitionCoefficient]"
proof -
  let ?env = "sample_env 9 3 0"
  let ?shared = "sample_shared\<lparr>shared_w := [2, 1, 0]\<rparr>"
  have h: "HAMMING_LOSS ?env = None" by (simp add: sample_defs)
  have n: "\<not> use_nonsmooth ?shared" by (simp add: sample_defs)
  from h n
    mstep_conditional_pass [OF h n, where nonshared = "\<lparr>index = 1\<rparr>" and need_gradient = True and s = start]
    mstep_conditional_pass [OF h n, where nonshared = "\<lparr>index = 0\<rparr>" and need_gradient = False and s = start]
  show ?thesis
    by (simp add: ComputeMStepFunctionAndGradient_def stage_defs run_defs sample_defs)
qed

section \<open>Bad parses\<close>

text \<open>
  Claim C4.  When the inference part of Function/Gradient (plain or M-step) returns a
  conditional score below \<open>NEG_INF/2\<close>, and the scores pass the assertion that precedes
  the check, the command returns normally a result vector of zeros only, of the length
  the result had (gradient entries and function value), and its one effect beyond the
  inference is a warning on the error stream that names the example's file.
\<close>

theorem bad_parse_zeroed:
  assumes "c < NEG_INF env / 2" and "asserts_enabled env \<longrightarrow> c \<le> u"
  shows "(function_gradient_inference env shared nonshared need_gradient s = (Inr (u, uc, c, cc), s')
            \<longrightarrow> ComputeFunctionAndGradient env shared nonshared need_gradient s =
                  (Inr (replicate (Suc (length (if need_gradient then vec_sub uc cc else []))) 0),
                   s'\<lparr>stderr := stderr s' @ [BadParse (input_filename (example env nonshared))]\<rparr>))
       \<and> (mstep_inference env shared nonshared need_gradient s = (Inr (u, uc, c, cc), s')
            \<longrightarrow> ComputeMStepFunctionAndGradient env shared nonshared need_gradient s =
                  (Inr (replicate (Suc (length (if need_gradient then vec_sub uc cc else []))) 0),
                   s'\<lparr>stderr := stderr s' @ [BadParse (input_filename (example env nonshared))]\<rparr>))"
  using assms
  by (auto simp add: ComputeFunctionAndGradient_def ComputeMStepFunctionAndGradient_def
      score_difference_result fill_zero_def bnd_def sq_def cerr_def ret_def)

theorem bad_parse_zeroed_witness:
  "fst (ComputeFunctionAndGradient (sample_env 0 (- 300000000000000000000) 0) sample_shared \<lparr>index = 0\<rparr> True start)
     = Inr [0, 0, 0]
   \<and> stderr (snd (ComputeFunctionAndGradient (sample_env 0 (- 300000000000000000000) 0) sample_shared \<lparr>index = 0\<rparr> True start))
     = [BadParse ''known.bpseq'']
   \<and> fst (ComputeMStepFunctionAndGradient (sample_env 0 (- 300000000000000000000) 0) sample_shared \<lparr>index = 0\<rparr> False start)
     = Inr [0]
   \<and> stderr (snd (ComputeMStepFunctionAndGradient (sample_env 0 (- 300000000000000000000) 0) sample_shared \<lparr>index = 0\<rparr> False start))
     = [BadParse ''known.bpseq'']"
proof -
  let ?env = "sample_env 0 (- 300000000000000000000) 0"
  have a: "- 300000000000000000000 < NEG_INF ?env / 2" by (simp add: sample_defs)
  have b: "asserts_enabled ?env \<longrightarrow> - 300000000000000000000 \<le> (0::real)" by simp
  have f: "function_gradient_inference ?env sample_shared \<lparr>index = 0\<rparr> True start =
             (Inr (0, [1 / 2, 1 / 2], - 300000000000000000000, [1, 0]),
              snd (function_gradient_inference ?env sample_shared \<lparr>index = 0\<rparr> True start))"
    by (simp add: stage_defs run_defs sample_defs)
  have m: "mstep_inference ?env sample_shared \<lparr>index = 0\<rparr> False start =
             (Inr (0, [], - 300000000000000000000, []),
              snd (mstep_inference ?env sample_shared \<lparr>index = 0\<rparr> False start))"
    by (simp add: stage_defs run_defs sample_defs)
  from bad_parse_zeroed [OF a b, THEN conjunct1, rule_format, OF f]
       bad_parse_zeroed [OF a b, THEN conjunct2, rule_format, OF m]
  show ?thesis
    by (simp add: ComputeFunctionAndGradient_def ComputeMStepFunctionAndGradient_def
        stage_defs run_defs sample_defs)
qed

section \<open>Negative function values\<close>

text \<open>
  Claim C2.  In Function/Gradient and in the M-step command, when the run reaches the
  closing precision check with a negative function value (the last entry of the result):
  below -1e-6 the process exits, after a line on the error stream and after the weight
  vector was written to the file "neg_params." followed by the base name of the example's
  file; from -1e-6 up to 0 the command returns a vector of zeros of the same length and
  writes nothing, neither to the error stream nor to a file.
\<close>

theorem negative_objective_handling:
  fixes env shared nonshared
  defines "name \<equiv> input_filename (example env nonshared)"
  defines "outcome \<equiv> (\<lambda>result t.
     if last result < - (1 / 1000000)
     then (Inl (ProcessExit 0),
           t\<lparr>stderr := stderr t @ [NegativeFunctionValue name (last result)],
             written := written t @ [(''neg_params.'' @ GetBaseName env name, weights env shared)]\<rparr>)
     else (Inr (replicate (length result) 0), t))"
  shows "(function_gradient_inference env shared nonshared need_gradient s = (Inr (u, uc, c, cc), s1)
          \<and> \<not> c < NEG_INF env / 2
          \<and> score_difference env need_gradient u uc c cc s1 = (Inr r, s1)
          \<and> nonconvex_correction env shared nonshared need_gradient uc c cc r s1 = (Inr (False, r'), s2)
          \<and> last r' < 0
          \<longrightarrow> ComputeFunctionAndGradient env shared nonshared need_gradient s = outcome r' s2)
       \<and> (mstep_inference env shared nonshared need_gradient s = (Inr (u, uc, c, cc), s1)
          \<and> \<not> c < NEG_INF env / 2
          \<and> score_difference env need_gradient u uc c cc s1 = (Inr r, s1)
          \<and> NONCONVEX_MULTIPLIER env = 0
          \<and> last r < 0
          \<longrightarrow> ComputeMStepFunctionAndGradient env shared nonshared need_gradient s = outcome r s1)"
  unfolding outcome_def name_def
  by (auto simp add: ComputeFunctionAndGradient_def ComputeMStepFunctionAndGradient_def
      precision_check_negative bnd_def sq_def ret_def)

theorem negative_objective_handling_witness:
  "fst (ComputeFunctionAndGradient ((sample_env 0 1 0)\<lparr>asserts_enabled := False\<rparr>) sample_shared
          \<lparr>index = 0\<rparr> False start) = Inl (ProcessExit 0)
   \<and> written (snd (ComputeFunctionAndGradient ((sample_env 0 1 0)\<lparr>asserts_enabled := False\<rparr>) sample_shared
          \<lparr>index = 0\<rparr> False start)) = [(''neg_params.known.bpseq'', [0, 0])]
   \<and> fst (ComputeMStepFunctionAndGradient ((sample_env 0 (1 / 10000000) 0)\<lparr>asserts_enabled := False\<rparr>)
          sample_shared \<lparr>index = 0\<rparr> True start) = Inr [0, 0, 0]
   \<and> stderr (snd (ComputeMStepFunctionAndGradient ((sample_env 0 (1 / 10000000) 0)\<lparr>asserts_enabled := False\<rparr>)
          sample_shared \<lparr>index = 0\<rparr> True start)) = []
   \<and> written (snd (ComputeMStepFunctionAndGradient ((sample_env 0 (1 / 10000000) 0)\<lparr>asserts_enabled := False\<rparr>)
          sample_shared \<lparr>index = 0\<rparr> True start)) = []"
proof -
  let ?e1 = "(sample_env 0 1 0)\<lparr>asserts_enabled := False\<rparr>"
  let ?e2 = "(sample_env 0 (1 / 10000000) 0)\<lparr>asserts_enabled := False\<rparr>"
  let ?s1 = "snd (function_gradient_inference ?e1 sample_shared \<lparr>index = 0\<rparr> False start)"
  let ?s2 = "snd (mstep_inference ?e2 sample_shared \<lparr>index = 0\<rparr> True start)"
  have f: "function_gradient_inference ?e1 sample_shared \<lparr>index = 0\<rparr> False start = (Inr (0, [], 1, []), ?s1)
         \<and> \<not> 1 < NEG_INF ?e1 / 2
         \<and> score_difference ?e1 False 0 [] 1 [] ?s1 = (Inr [- 1], ?s1)
         \<and> nonconvex_correction ?e1 sample_shared \<lparr>index = 0\<rparr> False [] 1 [] [- 1] ?s1 = (Inr (False, [- 1]), ?s1)
         \<and> last [- 1 :: real] < 0"
    by (simp add: stage_defs run_defs sample_defs)
  have m: "mstep_inference ?e2 sample_shared \<lparr>index = 0\<rparr> True start
             = (Inr (0, [1 / 2, 1 / 2], 1 / 10000000, [1, 0]), ?s2)
         \<and> \<not> 1 / 10000000 < NEG_INF ?e2 / 2
         \<and> score_difference ?e2 True 0 [1 / 2, 1 / 2] (1 / 10000000) [1, 0] ?s2
             = (Inr [- (1 / 2), 1 / 2, - (1 / 10000000)], ?s2)
         \<and> NONCONVEX_MULTIPLIER ?e2 = 0
         \<and> last [- (1 / 2), 1 / 2, - (1 / 10000000 :: real)] < 0"
    by (simp add: stage_defs run_defs sample_defs)
  from negative_objective_handling [THEN conjunct1, rule_format, OF f]
       negative_objective_handling [THEN conjunct2, rule_format, OF m]
  show ?thesis
    by (simp add: stage_defs run_defs sample_defs)
qed

section \<open>Hessian-vector product\<close>

lemma perturbed_nth:
  "i < n \<Longrightarrow> i < length ws \<Longrightarrow> perturbed n ws vs e ! i = ws ! i + e * vs ! i"
  by (simp add: perturbed_def)

text \<open>
  Claim C6.  With the option \<open>viterbi_parsing\<close> set, the Hessian-vector product command
  fails fatally with its message before any call reaches the engine.  Otherwise, when the
  Function/Gradient command (gradient requested) returns \<open>g_plus\<close> at the weights moved by
  \<open>+1e-8 v\<close> and then \<open>g_minus\<close> at the weights moved by \<open>-1e-8 v\<close>, the command returns
  the componentwise quotient \<open>(g_plus - g_minus) / (2 * 1e-8)\<close>.  The moved weight vector
  is \<open>w + e v\<close> on every logical parameter.
\<close>

theorem hessian_vector_product:
  fixes env shared nonshared
  defines "n \<equiv> GetNumLogicalParameters env"
  defines "moved \<equiv> (\<lambda>e. shared\<lparr>shared_w := perturbed n (shared_w shared) (take n (shared_v shared)) e\<rparr>)"
  shows "(viterbi_parsing env \<longrightarrow>
            ComputeHessianVectorProduct env shared nonshared s =
              (Inl (FatalError ''Should not use Hessian-vector products with Viterbi parsing.''), s))
       \<and> (\<not> viterbi_parsing env
          \<and> ComputeFunctionAndGradient env (moved (1 / 100000000)) nonshared True s = (Inr g_plus, s1)
          \<and> ComputeFunctionAndGradient env (moved (- (1 / 100000000))) nonshared True s1 = (Inr g_minus, s2)
          \<longrightarrow> ComputeHessianVectorProduct env shared nonshared s =
                (Inr (map (\<lambda>(a, b). (a - b) / (2 * (1 / 100000000))) (zip g_plus g_minus)), s2))
       \<and> (\<forall>i e. i < n \<and> i < length (shared_w shared) \<longrightarrow>
             weights env (moved e) ! i = shared_w shared ! i + e * shared_v shared ! i)"
  unfolding moved_def n_def
  by (auto simp add: ComputeHessianVectorProduct_def EPSILON_def vec_div_def vec_sub_def
      weights_def perturbed_nth run_defs Let_def case_prod_unfold)

theorem hessian_vector_product_witness:
  "\<not> viterbi_parsing (sample_env 5 3 0)
   \<and> ComputeHessianVectorProduct (sample_env 5 3 0) sample_shared \<lparr>index = 0\<rparr> start =
       (Inr [0, 0, 1],
        snd (ComputeFunctionAndGradient (sample_env 5 3 0) (sample_shared\<lparr>shared_w := [- (1 / 100000000), 0, 0]\<rparr>)
               \<lparr>index = 0\<rparr> True
               (snd (ComputeFunctionAndGradient (sample_env 5 3 0) (sample_shared\<lparr>shared_w := [1 / 100000000, 0, 0]\<rparr>)
                       \<lparr>index = 0\<rparr> True start))))
   \<and> fst (ComputeHessianVectorProduct ((sample_env 5 3 0)\<lparr>viterbi_parsing := True\<rparr>) sample_shared \<lparr>index = 0\<rparr> start)
       = Inl (FatalError ''Should not use Hessian-vector products with Viterbi parsing.'')"
  using hessian_vector_product [of "sample_env 5 3 0" sample_shared "\<lparr>index = 0\<rparr>" start]
        hessian_vector_product [of "(sample_env 5 3 0)\<lparr>viterbi_parsing := True\<rparr>" sample_shared "\<lparr>index = 0\<rparr>" start]
  by (simp add: ComputeHessianVectorProduct_def ComputeFunctionAndGradient_def EPSILON_def perturbed_def
      stage_defs run_defs sample_defs)

section \<open>Rebasing of the Gamma statistics\<close>

lemmas gamma_defs = ComputeGammaMLEFunctionAndGradient_def gammamle_ss_def gammamle_ess_def
  gamma_ll_def int_cast_def

text \<open>
  Claim C3, as the code has it.  For an example with evidence, the smooth objective and a
  positive scale, the Gamma function/gradient command with the gradient requested returns
  (times the example's weight) the sum of evidence values divided by the scale, the sum of
  logarithms rebased, the count, and the log-likelihood.  With known structure the sum of
  logarithms is lowered by the returned count (\<open>GetNumExamplesSeqPairing\<close>) times
  \<open>log(scale)\<close>.  With unknown structure it is lowered by the third expected statistic of
  the engine (\<open>stats[2]\<close>) times \<open>log(scale)\<close>, while the count returned is
  \<open>GetNumExamplesSeq\<close>.
\<close>

theorem gamma_statistics_rebased:
  fixes env shared nonshared s
  defines "ss \<equiv> sstruct (example env nonshared)"
  defines "which \<equiv> which_data shared"
  defines "scale \<equiv> evidence_data_scale shared"
  defines "cpd \<equiv> [id_base shared, id_pairing shared, if areZeros shared \<noteq> 0 then 1 else 0]"
  defines "prepared \<equiv>
     calls s @ [LoadSequence ss, UseConstraints (GetMapping ss),
                LoadValues (vec_scale (weights env shared) (log_base shared)),
                UpdateEvidenceStructures]"
  defines "known \<equiv> prepared @ [ComputeGammaMLESS cpd (areZeros shared = 0) (areZeros shared = 0) which]"
  defines "unknown \<equiv>
     prepared @ [ComputeInsideESS, ComputeOutsideESS, ComputePosteriorESS,
                 ComputeGammaMLEESS cpd (areZeros shared = 0) (areZeros shared = 0) which]"
  defines "n_known \<equiv> scalar_reply (engine env) (known @ [GetNumExamplesSeqPairing cpd False which])"
  defines "n_unknown \<equiv> scalar_reply (engine env) (unknown @ [GetNumExamplesSeq cpd False which])"
  assumes "HasEvidence ss which" and "HAMMING_LOSS env = None" and "\<not> use_nonsmooth shared"
    and "0 < scale"
  shows "\<exists>ll s'.
           ComputeGammaMLEFunctionAndGradient env shared nonshared True s =
             (Inr (vec_scale
                    (if HasStruct ss then
                       [vector_reply (engine env) known ! 0 / scale,
                        vector_reply (engine env) known ! 1 - n_known * ln scale,
                        n_known, ll]
                     else
                       [vector_reply (engine env) unknown ! 0 / scale,
                        vector_reply (engine env) unknown ! 1
                          - vector_reply (engine env) unknown ! 2 * ln scale,
                        n_unknown, ll])
                    (weight (example env nonshared))), s')"
  using assms
  by (auto simp add: gamma_defs Let_def run_defs)

theorem gamma_statistics_rebased_witness:
  "fst (ComputeGammaMLEFunctionAndGradient (sample_env 0 0 0) sample_shared \<lparr>index = 0\<rparr> True start)
     = Inr [3, 4 - 3 * ln 2, 3, - 6]"
  using gamma_statistics_rebased [of "sample_env 0 0 0" "\<lparr>index = 0\<rparr>" sample_shared start]
  by (simp add: gamma_defs run_defs sample_defs vec_scale_def Let_def)

text \<open>
  The claim as stated fails in the unknown-structure branch: with the engine's statistics
  \<open>(6, 4, 2)\<close>, the count 3 and the scale 2, the sum of logarithms returned is
  \<open>4 - 2 ln 2\<close>, not \<open>4 - 3 ln 2\<close>.
\<close>

theorem gamma_ess_rebased_by_ssq:
  "fst (ComputeGammaMLEFunctionAndGradient (sample_env 0 0 0) sample_shared \<lparr>index = 1\<rparr> True start)
     = Inr [3, 4 - 2 * ln 2, 3, - 6]
   \<and> 4 - 2 * ln 2 \<noteq> 4 - 3 * ln (2::real)"
  by (simp add: gamma_defs run_defs sample_defs vec_scale_def Let_def)

section \<open>Conditional against unconditional score\<close>

lemma se_cell_unknown_structure:
  assumes "\<not> HasStruct ss"
  shows "\<exists>r' s'. se_cell env ss ws need_gradient cell (fv, r) s = (Inr (fv, r'), s') \<and> length r' = length r"
  using assms by (simp add: se_cell_def Let_def run_defs)

lemma se_cells_unknown_structure:
  assumes "\<not> HasStruct ss"
  shows "\<exists>r' s'. se_cells env ss ws need_gradient cells (fv, r) s = (Inr (fv, r'), s') \<and> length r' = length r"
proof (induction cells arbitrary: r s)
  case Nil
  show ?case by (simp add: ret_def)
next
  case (Cons cell cells)
  from se_cell_unknown_structure [OF assms, of env ws need_gradient cell fv r s]
  obtain r1 s1 where a: "se_cell env ss ws need_gradient cell (fv, r) s = (Inr (fv, r1), s1)"
    and l: "length r1 = length r" by blast
  from Cons.IH [of r1 s1] a l show ?case by (simp add: bnd_def)
qed

lemma function_gradient_scores:
  assumes "function_gradient_inference env shared nonshared need_gradient s = (Inr (u, uc, c, cc), s1)"
  shows "asserts_enabled env \<and> u < c \<longrightarrow>
           ComputeFunctionAndGradient env shared nonshared need_gradient s =
             (Inl (AssertionFailed ''Conditional score cannot exceed unconditional score.''), s1)"
    and "c \<le> u \<and> \<not> c < NEG_INF env / 2 \<and> NONCONVEX_MULTIPLIER env = 0 \<longrightarrow>
           ComputeFunctionAndGradient env shared nonshared need_gradient s =
             (Inr (vec_scale (if need_gradient then vec_sub uc cc else []) (weight (example env nonshared))
                   @ [(u - c) * weight (example env nonshared) / log_base shared]), s1)"
  using assms
  by (auto simp add: ComputeFunctionAndGradient_def score_difference_result nonconvex_correction_def
      precision_check_def back_div_scaled bnd_def ret_def)

lemma mstep_scores:
  assumes "mstep_inference env shared nonshared need_gradient s = (Inr (u, uc, c, cc), s1)"
  shows "asserts_enabled env \<and> u < c \<longrightarrow>
           ComputeMStepFunctionAndGradient env shared nonshared need_gradient s =
             (Inl (AssertionFailed ''Conditional score cannot exceed unconditional score.''), s1)"
    and "c \<le> u \<and> \<not> c < NEG_INF env / 2 \<and> NONCONVEX_MULTIPLIER env = 0 \<longrightarrow>
           ComputeMStepFunctionAndGradient env shared nonshared need_gradient s =
             (Inr (vec_scale (if need_gradient then vec_sub uc cc else []) (weight (example env nonshared))
                   @ [(u - c) * weight (example env nonshared) / log_base shared]), s1)"
  using assms
  by (auto simp add: ComputeMStepFunctionAndGradient_def score_difference_result
      precision_check_def back_div_scaled bnd_def sq_def ret_def)

lemma se_scores:
  assumes "se_inference env shared nonshared need_gradient s = (Inr (u, uc, c, cc), s1)"
    and "se_cells env (sstruct (example env nonshared)) (weights env shared) need_gradient
           (evidence_cells env) (0, if need_gradient then vec_sub uc cc else []) s1 = (Inr (ev, g), s2)"
  shows "HasStruct (sstruct (example env nonshared)) \<and> asserts_enabled env \<and> u < c \<longrightarrow>
           ComputeFunctionAndGradientSE env shared nonshared need_gradient s =
             (Inl (AssertionFailed ''Conditional score cannot exceed unconditional score.''), s2)"
    and "\<not> HasStruct (sstruct (example env nonshared)) \<and> u < c \<and> NONCONVEX_MULTIPLIER env = 0 \<longrightarrow>
           ComputeFunctionAndGradientSE env shared nonshared need_gradient s =
             (Inr (replicate (Suc (length g)) 0),
              if c < NEG_INF env / 2
              then s2\<lparr>stderr := stderr s2 @ [BadParse (input_filename (example env nonshared))]\<rparr>
              else s2)"
    and "c \<le> u \<and> \<not> c < NEG_INF env / 2 \<and> NONCONVEX_MULTIPLIER env = 0 \<longrightarrow>
           ComputeFunctionAndGradientSE env shared nonshared need_gradient s =
             (Inr (if HasStruct (sstruct (example env nonshared))
                   then vec_scale g (weight (example env nonshared))
                          @ [(ev + (u - c)) * weight (example env nonshared) / log_base shared]
                   else vec_scale (vec_scale g (weight (example env nonshared))
                                     @ [(u - c) * weight (example env nonshared) / log_base shared])
                          (hyperparam_data shared)), s2)"
proof -
  have ev: "\<not> HasStruct (sstruct (example env nonshared)) \<Longrightarrow> ev = 0"
    using se_cells_unknown_structure [of "sstruct (example env nonshared)" env "weights env shared"
        need_gradient "evidence_cells env" 0 "if need_gradient then vec_sub uc cc else []" s1] assms(2)
    by auto
  show "HasStruct (sstruct (example env nonshared)) \<and> asserts_enabled env \<and> u < c \<longrightarrow>
           ComputeFunctionAndGradientSE env shared nonshared need_gradient s =
             (Inl (AssertionFailed ''Conditional score cannot exceed unconditional score.''), s2)"
    using assms
    by (auto simp add: ComputeFunctionAndGradientSE_def Let_def bnd_def sq_def Assert_def)
  show "\<not> HasStruct (sstruct (example env nonshared)) \<and> u < c \<and> NONCONVEX_MULTIPLIER env = 0 \<longrightarrow>
           ComputeFunctionAndGradientSE env shared nonshared need_gradient s =
             (Inr (replicate (Suc (length g)) 0),
              if c < NEG_INF env / 2
              then s2\<lparr>stderr := stderr s2 @ [BadParse (input_filename (example env nonshared))]\<rparr>
              else s2)"
    using assms
    by (auto simp add: ComputeFunctionAndGradientSE_def Let_def bnd_def sq_def ret_def cerr_def
        fill_zero_def)
  show "c \<le> u \<and> \<not> c < NEG_INF env / 2 \<and> NONCONVEX_MULTIPLIER env = 0 \<longrightarrow>
           ComputeFunctionAndGradientSE env shared nonshared need_gradient s =
             (Inr (if HasStruct (sstruct (example env nonshared))
                   then vec_scale g (weight (example env nonshared))
                          @ [(ev + (u - c)) * weight (example env nonshared) / log_base shared]
                   else vec_scale (vec_scale g (weight (example env nonshared))
                                     @ [(u - c) * weight (example env nonshared) / log_base shared])
                          (hyperparam_data shared)), s2)"
    using assms ev
    by (auto simp add: ComputeFunctionAndGradientSE_def Let_def bnd_def sq_def ret_def Assert_def
        back_div_scaled)
qed

lemmas se_defs = ComputeFunctionAndGradientSE_def se_inference_def se_cell_def evidence_cells_def
  numeral_2_eq_2

text \<open>
  Claim C1, as the code has it.  In Function/Gradient and in the M-step command, a
  conditional score above the unconditional one fails the assertion (in a build that checks
  assertions); with the scores in order, no bad parse and no non-convex correction, the
  function value returned is \<open>unconditional - conditional\<close>, times the example's weight
  and divided by \<open>log_base\<close>.  In the structured-evidence command the assertion is made
  for examples of known structure only: for an example of unknown structure a conditional
  score above the unconditional one yields a vector of zeros, and no failure; the function
  value is \<open>unconditional - conditional\<close> plus the evidence term accumulated over the
  cells, which is zero for an example of unknown structure.
\<close>

theorem score_comparison:
  fixes env shared nonshared need_gradient
  defines "ss \<equiv> sstruct (example env nonshared)"
  defines "wt \<equiv> weight (example env nonshared)"
  defines "failed \<equiv> Inl (AssertionFailed ''Conditional score cannot exceed unconditional score.'')"
  defines "difference \<equiv> (\<lambda>uc cc. if need_gradient then vec_sub uc cc else [])"
  shows "(function_gradient_inference env shared nonshared need_gradient s = (Inr (u, uc, c, cc), s1) \<longrightarrow>
            (asserts_enabled env \<and> u < c \<longrightarrow>
               ComputeFunctionAndGradient env shared nonshared need_gradient s = (failed, s1))
          \<and> (c \<le> u \<and> \<not> c < NEG_INF env / 2 \<and> NONCONVEX_MULTIPLIER env = 0 \<longrightarrow>
               ComputeFunctionAndGradient env shared nonshared need_gradient s =
                 (Inr (vec_scale (difference uc cc) wt @ [(u - c) * wt / log_base shared]), s1)))
       \<and> (mstep_inference env shared nonshared need_gradient s = (Inr (u, uc, c, cc), s1) \<longrightarrow>
            (asserts_enabled env \<and> u < c \<longrightarrow>
               ComputeMStepFunctionAndGradient env shared nonshared need_gradient s = (failed, s1))
          \<and> (c \<le> u \<and> \<not> c < NEG_INF env / 2 \<and> NONCONVEX_MULTIPLIER env = 0 \<longrightarrow>
               ComputeMStepFunctionAndGradient env shared nonshared need_gradient s =
                 (Inr (vec_scale (difference uc cc) wt @ [(u - c) * wt / log_base shared]), s1)))
       \<and> (se_inference env shared nonshared need_gradient s = (Inr (u, uc, c, cc), s1)
          \<and> se_cells env ss (weights env shared) need_gradient (evidence_cells env) (0, difference uc cc) s1
               = (Inr (ev, g), s2) \<longrightarrow>
            (HasStruct ss \<and> asserts_enabled env \<and> u < c \<longrightarrow>
               ComputeFunctionAndGradientSE env shared nonshared need_gradient s = (failed, s2))
          \<and> (\<not> HasStruct ss \<and> u < c \<and> NONCONVEX_MULTIPLIER env = 0 \<longrightarrow>
               ComputeFunctionAndGradientSE env shared nonshared need_gradient s =
                 (Inr (replicate (Suc (length g)) 0),
                  if c < NEG_INF env / 2
                  then s2\<lparr>stderr := stderr s2 @ [BadParse (input_filename (example env nonshared))]\<rparr>
                  else s2))
          \<and> (c \<le> u \<and> \<not> c < NEG_INF env / 2 \<and> NONCONVEX_MULTIPLIER env = 0 \<longrightarrow>
               ComputeFunctionAndGradientSE env shared nonshared need_gradient s =
                 (Inr (if HasStruct ss
                       then vec_scale g wt @ [(ev + (u - c)) * wt / log_base shared]
                       else vec_scale (vec_scale g wt @ [(u - c) * wt / log_base shared])
                              (hyperparam_data shared)), s2)))"
  unfolding ss_def wt_def failed_def difference_def
  using function_gradient_scores [of env shared nonshared need_gradient s u uc c cc s1]
    mstep_scores [of env shared nonshared need_gradient s u uc c cc s1]
    se_scores [of env shared nonshared need_gradient s u uc c cc s1 ev g s2]
  by blast

theorem score_comparison_witness:
  "fst (ComputeFunctionAndGradient (sample_env 0 1 0) sample_shared \<lparr>index = 0\<rparr> True start)
     = Inl (AssertionFailed ''Conditional score cannot exceed unconditional score.'')
   \<and> fst (ComputeMStepFunctionAndGradient (sample_env 5 3 0) sample_shared \<lparr>index = 0\<rparr> True start)
     = Inr [- (1 / 2), 1 / 2, 2]
   \<and> fst (ComputeFunctionAndGradientSE (sample_env 0 1 0) sample_shared \<lparr>index = 0\<rparr> False start)
     = Inl (AssertionFailed ''Conditional score cannot exceed unconditional score.'')"
proof -
  let ?bad = "sample_env 0 1 0"
  let ?good = "sample_env 5 3 0"
  let ?s1 = "snd (function_gradient_inference ?bad sample_shared \<lparr>index = 0\<rparr> True start)"
  let ?s2 = "snd (mstep_inference ?good sample_shared \<lparr>index = 0\<rparr> True start)"
  let ?s3 = "snd (se_inference ?bad sample_shared \<lparr>index = 0\<rparr> False start)"
  let ?s4 = "snd (se_cells ?bad (sstruct (example ?bad \<lparr>index = 0\<rparr>)) (weights ?bad sample_shared) False
                    (evidence_cells ?bad) (0, if False then vec_sub [] [] else []) ?s3)"
  have f: "function_gradient_inference ?bad sample_shared \<lparr>index = 0\<rparr> True start
             = (Inr (0, [1 / 2, 1 / 2], 1, [1, 0]), ?s1)"
    by (simp add: stage_defs run_defs sample_defs)
  have fa: "asserts_enabled ?bad \<and> (0::real) < 1"
    by (simp add: sample_defs)
  have m: "mstep_inference ?good sample_shared \<lparr>index = 0\<rparr> True start
             = (Inr (5, [1 / 2, 1 / 2], 3, [1, 0]), ?s2)"
    by (simp add: stage_defs run_defs sample_defs)
  have ma: "(3::real) \<le> 5 \<and> \<not> 3 < NEG_INF ?good / 2 \<and> NONCONVEX_MULTIPLIER ?good = 0"
    by (simp add: sample_defs)
  have e: "se_inference ?bad sample_shared \<lparr>index = 0\<rparr> False start = (Inr (0, [], 1, []), ?s3)
         \<and> se_cells ?bad (sstruct (example ?bad \<lparr>index = 0\<rparr>)) (weights ?bad sample_shared) False
              (evidence_cells ?bad) (0, if False then vec_sub [] [] else []) ?s3 = (Inr (12, []), ?s4)"
    by (simp add: se_defs stage_defs run_defs sample_defs Let_def)
  have ea: "HasStruct (sstruct (example ?bad \<lparr>index = 0\<rparr>)) \<and> asserts_enabled ?bad \<and> (0::real) < 1"
    by (simp add: sample_defs)
  from score_comparison [THEN conjunct1, rule_format, OF f, THEN conjunct1, rule_format, OF fa]
  have r1: "fst (ComputeFunctionAndGradient ?bad sample_shared \<lparr>index = 0\<rparr> True start)
              = Inl (AssertionFailed ''Conditional score cannot exceed unconditional score.'')"
    by simp
  from score_comparison [THEN conjunct2, THEN conjunct1, rule_format, OF m, THEN conjunct2, rule_format, OF ma]
  have r2: "fst (ComputeMStepFunctionAndGradient ?good sample_shared \<lparr>index = 0\<rparr> True start)
              = Inr [- (1 / 2), 1 / 2, 2]"
    by (simp add: vec_scale_def vec_sub_def sample_defs)
  from score_comparison [THEN conjunct2, THEN conjunct2, rule_format, OF e, THEN conjunct1, rule_format, OF ea]
  have r3: "fst (ComputeFunctionAndGradientSE ?bad sample_shared \<lparr>index = 0\<rparr> False start)
              = Inl (AssertionFailed ''Conditional score cannot exceed unconditional score.'')"
    by simp
  from r1 r2 r3 show ?thesis by simp
qed

text \<open>
  The claim as stated fails for the structured-evidence command.  With assertions checked,
  an example of unknown structure whose conditional score 1 exceeds its unconditional score
  0 returns normally, a zero; and an example of known structure with scores 5 and 3
  returns 14, the difference 2 plus the evidence term 12.
\<close>

theorem se_scores_counterexample:
  "asserts_enabled (sample_env 0 0 1)
   \<and> fst (se_inference (sample_env 0 0 1) sample_shared \<lparr>index = 1\<rparr> False start) = Inr (0, [], 1, [])
   \<and> fst (ComputeFunctionAndGradientSE (sample_env 0 0 1) sample_shared \<lparr>index = 1\<rparr> False start) = Inr [0]
   \<and> fst (se_inference (sample_env 5 3 0) sample_shared \<lparr>index = 0\<rparr> False start) = Inr (5, [], 3, [])
   \<and> fst (ComputeFunctionAndGradientSE (sample_env 5 3 0) sample_shared \<lparr>index = 0\<rparr> False start) = Inr [14]"
  by (simp add: se_defs stage_defs run_defs sample_defs Let_def)

section \<open>The caching contract\<close>









end
